theory Spec2Isabelle
  imports Complex_Main
begin

section \<open>Errors thrown by the scripts\<close>

text \<open>
  Every \<^verbatim>\<open>throw new Error(...)\<close> of the sources is one constructor, named after the
  message it carries.  \<open>TypeError\<close> is what the JavaScript runtime throws when a property
  of \<^verbatim>\<open>undefined\<close> is read; \<open>External\<close> is any error thrown by a collaborator that is
  not part of the repository (the RPC provider, the identity SDK, the HTTP client, the
  ABI coder).  The messages:
  \<^item> \<open>ConfigMissing v\<close>: \<^verbatim>\<open>v is not defined in .env file\<close>;
  \<^item> \<open>RecipientRequired\<close>: \<^verbatim>\<open>One of the recipient information is required ...\<close>;
  \<^item> \<open>InvalidSchemaFormat\<close>: \<^verbatim>\<open>Invalid schema Id format. Expected 32-byte hex string with 0x prefix\<close>;
  \<^item> \<open>SchemaNotFound x\<close>: \<^verbatim>\<open>Schema with Id x not found\<close>;
  \<^item> \<open>AuthMethodNotFound\<close>: \<^verbatim>\<open>authV2 auth method not found\<close>;
  \<^item> \<open>StillZeroAfterAuthentication\<close>: \<^verbatim>\<open>Authentication failed - user ID is still 0 after authentication\<close>;
  \<^item> \<open>AuthMethodMisconfigured\<close>: \<^verbatim>\<open>Authentication failed: The ethIdentity auth method is either not registered or not properly configured ...\<close>;
  \<^item> \<open>CouldNotAuthenticate e\<close>: \<^verbatim>\<open>Could not authenticate: e\<close>;
  \<^item> \<open>UserAuthenticationFailed e\<close>: \<^verbatim>\<open>User authentication failed. Cannot proceed with attestation creation. Error: e\<close>;
  \<^item> \<open>RecordIdMissing\<close>: \<^verbatim>\<open>Failed to extract attestation Id from transaction events\<close>.
\<close>

datatype error =
    TypeError
  | External string
  | ConfigMissing string
  | RecipientRequired
  | InvalidSchemaFormat
  | SchemaNotFound string
  | AuthMethodNotFound
  | StillZeroAfterAuthentication
  | AuthMethodMisconfigured
  | CouldNotAuthenticate error
  | UserAuthenticationFailed error
  | RecordIdMissing

section \<open>walletSetup: preparing and packing the Groth16 proof\<close>

text \<open>
  \<^verbatim>\<open>ProofData\<close> of js-jwz: three arrays of decimal strings.  Reading a JavaScript array
  past its end gives \<^verbatim>\<open>undefined\<close> (here \<open>None\<close>); reading an index of \<^verbatim>\<open>undefined\<close>
  throws a \<open>TypeError\<close>.
\<close>

record ProofData =
  pi_a :: "string list"
  pi_b :: "string list list"
  pi_c :: "string list"

record PreparedProof =
  a :: "string list"
  b :: "string option list list"
  c :: "string list"

definition js_index :: "'a list \<Rightarrow> nat \<Rightarrow> 'a option" where
  "js_index xs i = (if i < length xs then Some (xs ! i) else None)"

definition slice :: "'a list \<Rightarrow> nat \<Rightarrow> nat \<Rightarrow> 'a list" where
  "slice xs from to = drop from (take to xs)"

definition prepareZkpProof :: "ProofData \<Rightarrow> error + PreparedProof" where
  "prepareZkpProof proof =
     (case js_index (pi_b proof) 0 of
        None \<Rightarrow> Inl TypeError
      | Some row0 \<Rightarrow>
          (case js_index (pi_b proof) 1 of
             None \<Rightarrow> Inl TypeError
           | Some row1 \<Rightarrow>
               Inr \<lparr> a = slice (pi_a proof) 0 2,
                     b = [[js_index row0 1, js_index row0 0],
                          [js_index row1 1, js_index row1 0]],
                     c = slice (pi_c proof) 0 2 \<rparr>))"

text \<open>
  The values handed to the ABI coder: a JavaScript array nests, its leaves are strings
  (or \<^verbatim>\<open>undefined\<close>).  The coder itself belongs to ethers, so it is a parameter
  \<open>encode\<close> taking the list of type strings and the list of values.
\<close>

datatype abi_value = AString "string option" | AArray "abi_value list"

definition strings :: "string list \<Rightarrow> abi_value" where
  "strings xs = AArray (map (\<lambda>x. AString (Some x)) xs)"

definition packZkpProof ::
  "(string list \<Rightarrow> abi_value list \<Rightarrow> error + string) \<Rightarrow>
   string list \<Rightarrow> string list \<Rightarrow> string option list list \<Rightarrow> string list \<Rightarrow> error + string" where
  "packZkpProof encode inputs a' b' c' =
     encode [''uint256[] inputs'', ''uint256[2]'', ''uint256[2][2]'', ''uint256[2]'']
            [strings inputs, strings a', AArray (map (\<lambda>row. AArray (map AString row)) b'), strings c']"

section \<open>The collaborators: contracts, identity SDK, ABI coder\<close>

text \<open>
  The four contracts, the identity SDK and the ABI coder are outside the repository.  They
  are the fields of one record of functions over a world \<open>'w\<close> (the chain together with
  whatever the SDK keeps).  A contract read observes the world and may fail; creating an
  identity, submitting a transaction and waiting for its inclusion also change the world.
  The scripts are the only actor: between two of their calls the world does not change.
  \<open>idFromDID\<close> is \<^verbatim>\<open>DID.idFromDID(d).bigInt()\<close>, \<open>didFromId\<close> is
  \<^verbatim>\<open>DID.parseFromId(Id.fromBigInt(i)).string()\<close>, \<open>newWallet\<close> gives the address of
  the wallet made from a private key, \<open>waitTx\<close> is \<^verbatim>\<open>tx.wait()\<close>; a write takes
  the address of the signer that sends it.
\<close>

type_synonym address = string
type_synonym did = string
type_synonym tx = string

record SchemaRecord =
  id_schema :: string
  schema :: string
  resolver :: address
  revocable :: bool

record ZeroKnowledgeProofAuthResponse =
  proof_zkp :: ProofData
  pub_signals :: "string list"

record AuthResponse =
  authMethod :: string
  proof_encoded :: string

record Attester =
  did_attester :: did
  iden3Id_attester :: int
  ethereumAddress_attester :: address

record Recipient =
  did_recipient :: string
  iden3Id_recipient :: string
  ethereumAddress_recipient :: address

record AttestationRequest =
  schemaId_request :: string
  attester :: Attester
  recipient :: Recipient
  expirationTime :: int
  revocable_request :: bool
  refId :: string
  data_request :: string

record StoredAttestation =
  id_stored :: string
  schemaId_stored :: string
  attester_stored :: Attester
  data_stored :: string

record Log =
  topics :: "string list"
  data_log :: string

record Receipt =
  logs :: "Log list"
  gasUsed :: int

record LogDescription =
  name :: string
  args :: "string list"

record 'w collaborators =
  createIdentity :: "'w \<Rightarrow> (error + did) \<times> 'w"
  idFromDID :: "did \<Rightarrow> error + int"
  didFromId :: "int \<Rightarrow> error + did"
  calcChallengeAuthV2 :: "address \<Rightarrow> int"
  generateAuthProof :: "'w \<Rightarrow> did \<Rightarrow> int \<Rightarrow> error + ZeroKnowledgeProofAuthResponse"
  abiEncode :: "string list \<Rightarrow> abi_value list \<Rightarrow> error + string"
  abiDecode :: "string list \<Rightarrow> string \<Rightarrow> error + string list"
  parseLog :: "Log \<Rightarrow> error + LogDescription option"
  newWallet :: "string \<Rightarrow> error + address"
  getSchema :: "'w \<Rightarrow> string \<Rightarrow> error + SchemaRecord"
  getDefaultIdType :: "'w \<Rightarrow> error + string"
  getIdByAddress :: "'w \<Rightarrow> address \<Rightarrow> error + int"
  authMethodExists :: "'w \<Rightarrow> string \<Rightarrow> error + bool"
  submitResponse :: "'w \<Rightarrow> address \<Rightarrow> AuthResponse \<Rightarrow> (error + tx) \<times> 'w"
  recordAttestation :: "'w \<Rightarrow> address \<Rightarrow> AttestationRequest \<Rightarrow> (error + tx) \<times> 'w"
  waitTx :: "'w \<Rightarrow> tx \<Rightarrow> (error + Receipt option) \<times> 'w"
  getAttestation :: "'w \<Rightarrow> string option \<Rightarrow> error + StoredAttestation"
  isAttestationValid :: "'w \<Rightarrow> string option \<Rightarrow> error + bool"

text \<open>
  What a run does to the outside is kept as a list of events, oldest first: one event per
  awaited call to a collaborator, and two of the console lines (the warning that the
  bound identifier differs from the generated one, and the attestation identifier).
\<close>

datatype event =
    CreateIdentity
  | GetSchema string
  | GetDefaultIdType
  | GetIdByAddress address
  | GenerateAuthProof did
  | AuthMethodExists string
  | SubmitResponse AuthResponse
  | RecordAttestation AttestationRequest
  | Wait tx
  | GetAttestation "string option"
  | IsAttestationValid "string option"
  | WarnIdDiffers int int
  | LogAttestationId "string option"

subsection \<open>Asynchronous code as a state and exception monad\<close>

type_synonym ('w, 'a) io = "'w \<times> event list \<Rightarrow> (error + 'a) \<times> 'w \<times> event list"

definition returnIO :: "'a \<Rightarrow> ('w, 'a) io" where
  "returnIO v = (\<lambda>s. (Inr v, s))"

definition throwIO :: "error \<Rightarrow> ('w, 'a) io" where
  "throwIO e = (\<lambda>s. (Inl e, s))"

definition liftIO :: "error + 'a \<Rightarrow> ('w, 'a) io" where
  "liftIO r = (\<lambda>s. (r, s))"

definition bindIO :: "('w, 'a) io \<Rightarrow> ('a \<Rightarrow> ('w, 'b) io) \<Rightarrow> ('w, 'b) io" where
  "bindIO m k = (\<lambda>s. case m s of (Inl e, s') \<Rightarrow> (Inl e, s') | (Inr v, s') \<Rightarrow> k v s')"

definition catchIO :: "('w, 'a) io \<Rightarrow> (error \<Rightarrow> ('w, 'a) io) \<Rightarrow> ('w, 'a) io" where
  "catchIO m h = (\<lambda>s. case m s of (Inl e, s') \<Rightarrow> h e s' | (Inr v, s') \<Rightarrow> (Inr v, s'))"

definition readIO :: "event \<Rightarrow> ('w \<Rightarrow> error + 'a) \<Rightarrow> ('w, 'a) io" where
  "readIO ev f = (\<lambda>(w, tr). (f w, w, tr @ [ev]))"

definition writeIO :: "event \<Rightarrow> ('w \<Rightarrow> (error + 'a) \<times> 'w) \<Rightarrow> ('w, 'a) io" where
  "writeIO ev f = (\<lambda>(w, tr). case f w of (r, w') \<Rightarrow> (r, w', tr @ [ev]))"

definition logIO :: "event \<Rightarrow> ('w, unit) io" where
  "logIO ev = (\<lambda>(w, tr). (Inr (), w, tr @ [ev]))"

section \<open>utils: checkAuthenticationAuthV2\<close>

text \<open>A character of a \<open>string\<close> stands for one code unit of the JavaScript string, so
  \<open>length\<close> is \<^verbatim>\<open>.length\<close>; identifiers are \<^verbatim>\<open>bigint\<close>s, here \<open>int\<close>.\<close>

definition startsWith :: "string \<Rightarrow> string \<Rightarrow> bool" where
  "startsWith s p = (take (length p) s = p)"

definition zeroHash :: string where
  "zeroHash = ''0x'' @ replicate 64 (CHR ''0'')"

text \<open>\<^verbatim>\<open>BigInt.prototype.toString()\<close>: the decimal digits, most significant first, with a
  minus sign in front of a negative number.\<close>

definition digitChar :: "nat \<Rightarrow> char" where
  "digitChar n = ''0123456789'' ! n"

fun digits :: "nat \<Rightarrow> string" where
  "digits n = (if n < 10 then [digitChar n] else digits (n div 10) @ [digitChar (n mod 10)])"

declare digits.simps [simp del]

definition bigint_toString :: "int \<Rightarrow> string" where
  "bigint_toString i = (if i < 0 then CHR ''-'' # digits (nat (- i)) else digits (nat i))"

text \<open>
  The body of the outer \<^verbatim>\<open>try\<close> of the branch that authenticates, with its three
  nested handlers.  The handler of \<^verbatim>\<open>methodError\<close> only prints what it caught and throws
  a message of its own; the two outer ones put what they caught into their message.
\<close>

definition submitAuthentication :: "'w collaborators \<Rightarrow> address \<Rightarrow> did \<Rightarrow> ('w, unit) io" where
  "submitAuthentication g signerAddress userDID =
     catchIO
       (let challengeAuth = calcChallengeAuthV2 g signerAddress in
        bindIO (readIO (GenerateAuthProof userDID) (\<lambda>w. generateAuthProof g w userDID challengeAuth)) (\<lambda>zkpRes.
        bindIO (liftIO (prepareZkpProof (proof_zkp zkpRes))) (\<lambda>preparedZkpProof.
        bindIO (liftIO (packZkpProof (abiEncode g) (pub_signals zkpRes)
                  (a preparedZkpProof) (b preparedZkpProof) (c preparedZkpProof))) (\<lambda>encodedAuthProof.
        let authResponse = \<lparr> authMethod = ''authV2'', proof_encoded = encodedAuthProof \<rparr> in
        catchIO
          (catchIO
             (bindIO (readIO (AuthMethodExists ''authV2'') (\<lambda>w. authMethodExists g w ''authV2'')) (\<lambda>authMethodExists'.
              if \<not> authMethodExists' then throwIO AuthMethodNotFound
              else
              bindIO (writeIO (SubmitResponse authResponse)
                        (\<lambda>w. submitResponse g w signerAddress authResponse)) (\<lambda>authTx.
              bindIO (writeIO (Wait authTx) (\<lambda>w. waitTx g w authTx)) (\<lambda>_.
              bindIO (readIO (GetIdByAddress signerAddress) (\<lambda>w. getIdByAddress g w signerAddress)) (\<lambda>currentUserId.
              if currentUserId = 0 then throwIO StillZeroAfterAuthentication
              else returnIO ())))))
             (\<lambda>methodError. throwIO AuthMethodMisconfigured))
          (\<lambda>authError. throwIO (CouldNotAuthenticate authError))))))
       (\<lambda>e. throwIO (UserAuthenticationFailed e))"

record AuthResult =
  userId :: int
  userDid :: did
  signerAddress :: address

text \<open>
  The function itself.  The storages, wallets and proof service it builds first are plain
  object constructions of walletSetup; the contract handle it also returns is the one it
  was configured with.  The mutable \<^verbatim>\<open>userId\<close> is the value bound after the branch.
\<close>

definition checkAuthenticationAuthV2 ::
  "'w collaborators \<Rightarrow> string \<Rightarrow> address \<Rightarrow> ('w, AuthResult) io" where
  "checkAuthenticationAuthV2 g schemaId wallet =
     (if \<not> startsWith schemaId ''0x'' \<or> length schemaId \<noteq> 66 then throwIO InvalidSchemaFormat
      else
      bindIO (writeIO CreateIdentity (createIdentity g)) (\<lambda>userDID.
      bindIO (readIO (GetSchema schemaId) (\<lambda>w. getSchema g w schemaId)) (\<lambda>schemaRecord.
      if id_schema schemaRecord = zeroHash then throwIO (SchemaNotFound schemaId)
      else
      let signerAddress = wallet in
      bindIO (readIO GetDefaultIdType (getDefaultIdType g)) (\<lambda>defaultIdType.
      bindIO (liftIO (idFromDID g userDID)) (\<lambda>userId.
      bindIO (readIO (GetIdByAddress signerAddress) (\<lambda>w. getIdByAddress g w signerAddress)) (\<lambda>currentUserId.
      bindIO (if currentUserId = 0 \<or> currentUserId \<noteq> userId
              then bindIO (submitAuthentication g signerAddress userDID) (\<lambda>_. returnIO userId)
              else if bigint_toString currentUserId \<noteq> bigint_toString userId
                   then bindIO (logIO (WarnIdDiffers currentUserId userId)) (\<lambda>_. returnIO currentUserId)
                   else returnIO userId) (\<lambda>userId.
      bindIO (liftIO (didFromId g userId)) (\<lambda>userDid.
      returnIO \<lparr> userId = userId, userDid = userDid, signerAddress = signerAddress \<rparr>))))))))"

section \<open>createReview: main\<close>

text \<open>
  \<^verbatim>\<open>process.env\<close> and the parsed command line: a variable or flag that is absent is
  \<^verbatim>\<open>undefined\<close> (\<open>None\<close>); \<^verbatim>\<open>!x\<close> and \<^verbatim>\<open>x || d\<close> also treat the empty string as absent.
\<close>

record Config =
  schemaId :: "string option"
  privateKey :: "string option"
  rpcUrl :: "string option"
  stateContractAddress :: "string option"
  authVerifierContractAddress :: "string option"
  attestationRegistryContractAddress :: "string option"
  schemaRegistryContractAddress :: "string option"
  chainId :: "string option"
  rhsUrl :: "string option"
  circuitsPath :: "string option"

record Args =
  stars :: "string option"
  comment :: "string option"
  recipientDid :: "string option"
  recipientId :: "string option"
  recipientAddress :: "string option"

definition falsy :: "string option \<Rightarrow> bool" where
  "falsy v = (v = None \<or> v = Some [])"

definition orElse :: "string option \<Rightarrow> string \<Rightarrow> string" where
  "orElse v d = (case v of None \<Rightarrow> d | Some x \<Rightarrow> if x = [] then d else x)"

definition checkRequiredParams :: "Config \<Rightarrow> error + unit" where
  "checkRequiredParams cfg =
     (if falsy (privateKey cfg) then Inl (ConfigMissing ''PRIVATE_KEY'')
      else if falsy (rpcUrl cfg) then Inl (ConfigMissing ''BILLIONS_TESTNET_RPC_URL'')
      else if falsy (stateContractAddress cfg) then Inl (ConfigMissing ''STATE_CONTRACT_ADDRESS'')
      else if falsy (authVerifierContractAddress cfg) then Inl (ConfigMissing ''AUTH_VERIFIER_CONTRACT_ADDRESS'')
      else if falsy (attestationRegistryContractAddress cfg)
        then Inl (ConfigMissing ''ATTESTATION_REGISTRY_CONTRACT_ADDRESS'')
      else if falsy (schemaRegistryContractAddress cfg)
        then Inl (ConfigMissing ''SCHEMA_REGISTRY_CONTRACT_ADDRESS'')
      else if falsy (chainId cfg) then Inl (ConfigMissing ''CHAIN_ID'')
      else if falsy (rhsUrl cfg) then Inl (ConfigMissing ''RHS_URL'')
      else if falsy (circuitsPath cfg) then Inl (ConfigMissing ''CIRCUITS_PATH'')
      else if falsy (schemaId cfg) then Inl (ConfigMissing ''REVIEW_ATTESTATION_SCHEMA'')
      else Inr ())"

text \<open>\<^verbatim>\<open>String.prototype.trim\<close> on the white space an 8-bit character can be.\<close>

definition isSpace :: "char \<Rightarrow> bool" where
  "isSpace ch = (ch \<in> set [CHR '' '', CHR 0x09, CHR 0x0A, CHR 0x0B, CHR 0x0C, CHR 0x0D, CHR 0xA0])"

definition trim :: "string \<Rightarrow> string" where
  "trim s = rev (dropWhile isSpace (rev (dropWhile isSpace s)))"

definition zeroAddress :: address where
  "zeroAddress = ''0x'' @ replicate 40 (CHR ''0'')"

text \<open>
  The scan of the receipt: the callback of \<^verbatim>\<open>find\<close> answers false for a log whose
  decoding throws or gives \<^verbatim>\<open>null\<close>.  \<^verbatim>\<open>receipt?.logs\<close> of a missing receipt is
  \<^verbatim>\<open>undefined\<close>, which takes the \<^verbatim>\<open>else\<close> branch.
\<close>

definition isAttestationRecorded :: "'w collaborators \<Rightarrow> Log \<Rightarrow> bool" where
  "isAttestationRecorded g log' =
     (case parseLog g log' of
        Inl _ \<Rightarrow> False
      | Inr None \<Rightarrow> False
      | Inr (Some parsed) \<Rightarrow> name parsed = ''AttestationRecorded'')"

definition findAttestationRecordedEvent :: "'w collaborators \<Rightarrow> Receipt option \<Rightarrow> Log option" where
  "findAttestationRecordedEvent g receipt =
     (case receipt of None \<Rightarrow> None | Some r \<Rightarrow> find (isAttestationRecorded g) (logs r))"

text \<open>
  The part of \<^verbatim>\<open>main\<close> after \<^verbatim>\<open>tx.wait()\<close>, the same in createReview and
  createOwnership but for the types the stored data is decoded with.
\<close>

definition confirmAttestation ::
  "'w collaborators \<Rightarrow> string list \<Rightarrow> Receipt option \<Rightarrow> ('w, unit) io" where
  "confirmAttestation g dataTypes receipt =
     (case findAttestationRecordedEvent g receipt of
        Some attestationRecordedEvent \<Rightarrow>
          bindIO (liftIO (parseLog g attestationRecordedEvent)) (\<lambda>parsed.
          let attestationId = (case parsed of None \<Rightarrow> None | Some d \<Rightarrow> js_index (args d) 0) in
          bindIO (logIO (LogAttestationId attestationId)) (\<lambda>_.
          bindIO (readIO (GetAttestation attestationId) (\<lambda>w. getAttestation g w attestationId)) (\<lambda>storedAttestation.
          bindIO (liftIO (abiDecode g dataTypes (data_stored storedAttestation))) (\<lambda>decoded.
          bindIO (readIO (IsAttestationValid attestationId) (\<lambda>w. isAttestationValid g w attestationId)) (\<lambda>_.
          returnIO ())))))
      | None \<Rightarrow> throwIO RecordIdMissing)"

definition main_createReview :: "'w collaborators \<Rightarrow> Config \<Rightarrow> Args \<Rightarrow> ('w, unit) io" where
  "main_createReview g cfg argv =
     bindIO (liftIO (checkRequiredParams cfg)) (\<lambda>_.
     bindIO (liftIO (newWallet g (orElse (privateKey cfg) []))) (\<lambda>wallet.
     let recipientId' = orElse (recipientId argv) ''0'';
         recipientDid' = orElse (recipientDid argv) [];
         recipientAddress' = orElse (recipientAddress argv) zeroAddress in
     if trim recipientDid' = [] \<and> recipientId' = ''0'' \<and> recipientAddress' = zeroAddress
     then throwIO RecipientRequired
     else
     let schemaId' = orElse (schemaId cfg) [] in
     bindIO (checkAuthenticationAuthV2 g schemaId' wallet) (\<lambda>auth.
     bindIO (liftIO (abiEncode g [''uint8'', ''string''] [AString (stars argv), AString (comment argv)])) (\<lambda>encodedData.
     let request = \<lparr> schemaId_request = schemaId',
                     attester = \<lparr> did_attester = userDid auth, iden3Id_attester = userId auth,
                                  ethereumAddress_attester = signerAddress auth \<rparr>,
                     recipient = \<lparr> did_recipient = recipientDid', iden3Id_recipient = recipientId',
                                   ethereumAddress_recipient = recipientAddress' \<rparr>,
                     expirationTime = 0, revocable_request = True, refId = zeroHash,
                     data_request = encodedData \<rparr> in
     bindIO (writeIO (RecordAttestation request) (\<lambda>w. recordAttestation g w wallet request)) (\<lambda>tx.
     bindIO (writeIO (Wait tx) (\<lambda>w. waitTx g w tx)) (\<lambda>receipt.
     confirmAttestation g [''uint8'', ''string''] receipt))))))"

text \<open>The script's last lines: exit code 0 when \<^verbatim>\<open>main\<close> resolves, 1 when it rejects.\<close>

definition exitCode :: "error + 'a \<Rightarrow> nat" where
  "exitCode r = (case r of Inl _ \<Rightarrow> 1 | Inr _ \<Rightarrow> 0)"

section \<open>getReviews: paging through the attestations API\<close>

text \<open>
  A request is the query string the script builds; the base URL and the schema come from
  the environment and are part of \<open>get\<close>, the HTTP client bound to the API, which
  answers a request the same way throughout a run.  A response body is
  \<^verbatim>\<open>{data, totalPages}\<close>, with an integer \<open>totalPages\<close>.
\<close>

record Attestation =
  decodedDataJson :: string
  fromDid :: string

record Request =
  recipientDid_query :: string
  page_number :: int
  page_size :: int

record Page =
  data_page :: "Attestation list"
  totalPages :: int

definition pageSize :: int where
  "pageSize = 20"

text \<open>The \<^verbatim>\<open>for\<close> loop; \<open>sent\<close> collects the requests in the order they are made.\<close>

function fetchPages ::
  "(Request \<Rightarrow> error + Page) \<Rightarrow> string \<Rightarrow> int \<Rightarrow> int \<Rightarrow> Attestation list \<Rightarrow> Request list
     \<Rightarrow> Request list \<times> (error + Attestation list)" where
  "fetchPages get agentDid page totalPages' reviews sent =
     (if page \<le> totalPages' then
        (let request = \<lparr> recipientDid_query = agentDid, page_number = page, page_size = pageSize \<rparr> in
         case get request of
           Inl e \<Rightarrow> (sent @ [request], Inl e)
         | Inr pagedRes \<Rightarrow>
             fetchPages get agentDid (page + 1) totalPages' (reviews @ data_page pagedRes) (sent @ [request]))
      else (sent, Inr reviews))"
  by pat_completeness auto
termination
  by (relation "measure (\<lambda>(get, agentDid, page, totalPages', reviews, sent). nat (totalPages' + 1 - page))") auto

declare fetchPages.simps [simp del]

definition getReviewsForAgent ::
  "(Request \<Rightarrow> error + Page) \<Rightarrow> string \<Rightarrow> Request list \<times> (error + Attestation list)" where
  "getReviewsForAgent get agentDid =
     (let request = \<lparr> recipientDid_query = agentDid, page_number = 1, page_size = pageSize \<rparr> in
      case get request of
        Inl e \<Rightarrow> ([request], Inl e)
      | Inr page1Res \<Rightarrow>
          if totalPages page1Res > 1
          then fetchPages get agentDid 2 (totalPages page1Res) (data_page page1Res) [request]
          else ([request], Inr (data_page page1Res)))"

section \<open>getReviews: main\<close>

text \<open>
  A decoded field descriptor \<^verbatim>\<open>{value: {name, value}}\<close>; the inner value is a JSON number
  or a JSON string.  A JavaScript number is \<open>NaN\<close> or a rational: the sum of the stars is
  a sum of integers, which double arithmetic computes exactly below \<open>2^53\<close>; the one
  division is the parameter \<open>fdiv\<close>, the division of the machine.
\<close>

datatype jvalue = JNumber int | JString string

record Field =
  name_field :: string
  value_field :: jvalue

datatype number = NaN | Num rat

record Runtime =
  jsonParse :: "string \<Rightarrow> error + Field list"
  numberOfString :: "string \<Rightarrow> number"
  fdiv :: "rat \<Rightarrow> rat \<Rightarrow> rat"

definition Number :: "Runtime \<Rightarrow> jvalue \<Rightarrow> number" where
  "Number rt v = (case v of JNumber n \<Rightarrow> Num (of_int n) | JString s \<Rightarrow> numberOfString rt s)"

definition add :: "number \<Rightarrow> number \<Rightarrow> number" where
  "add x y = (case x of NaN \<Rightarrow> NaN | Num p \<Rightarrow> (case y of NaN \<Rightarrow> NaN | Num q \<Rightarrow> Num (p + q)))"

definition findField :: "string \<Rightarrow> Field list \<Rightarrow> Field option" where
  "findField n decoded = find (\<lambda>field. name_field field = n) decoded"

text \<open>The callback of \<^verbatim>\<open>reduce\<close>, then \<^verbatim>\<open>reduce\<close> itself, which stops at the first throw.\<close>

definition addStars :: "Runtime \<Rightarrow> number \<Rightarrow> Attestation \<Rightarrow> error + number" where
  "addStars rt acc attestation =
     (case jsonParse rt (decodedDataJson attestation) of
        Inl e \<Rightarrow> Inl e
      | Inr decoded \<Rightarrow>
          (case findField ''stars'' decoded of
             None \<Rightarrow> Inl TypeError
           | Some starsField \<Rightarrow> Inr (add acc (Number rt (value_field starsField)))))"

fun reduce :: "('b \<Rightarrow> 'a \<Rightarrow> error + 'b) \<Rightarrow> 'a list \<Rightarrow> 'b \<Rightarrow> error + 'b" where
  "reduce f [] acc = Inr acc"
| "reduce f (x # xs) acc = (case f acc x of Inl e \<Rightarrow> Inl e | Inr acc' \<Rightarrow> reduce f xs acc')"

definition totalStars :: "Runtime \<Rightarrow> Attestation list \<Rightarrow> error + number" where
  "totalStars rt reviews = reduce (addStars rt) reviews (Num 0)"

definition averageStars :: "Runtime \<Rightarrow> number \<Rightarrow> nat \<Rightarrow> number" where
  "averageStars rt totalStars' reviewCount =
     (if reviewCount > 0
      then (case totalStars' of NaN \<Rightarrow> NaN | Num t \<Rightarrow> Num (fdiv rt t (of_nat reviewCount)))
      else Num 0)"

text \<open>
  \<^verbatim>\<open>Number.prototype.toFixed(2)\<close> as ECMAScript defines it below \<open>10^21\<close>: the integer
  \<open>n\<close> with \<open>n / 100\<close> nearest to the number, the larger one of two; its digits, padded
  to three with zeros, with a point before the last two.
\<close>

definition toFixed2 :: "number \<Rightarrow> string" where
  "toFixed2 x =
     (case x of
        NaN \<Rightarrow> ''NaN''
      | Num q \<Rightarrow>
          (let n = nat \<lfloor>\<bar>q\<bar> * 100 + 1 / 2\<rfloor>;
               m = digits n;
               m' = replicate (3 - length m) (CHR ''0'') @ m;
               body = take (length m' - 2) m' @ ''.'' @ drop (length m' - 2) m'
           in if q < 0 then CHR ''-'' # body else body))"

record ReviewLine =
  reviewer :: string
  stars_line :: jvalue
  comment_line :: jvalue

definition printReview :: "Runtime \<Rightarrow> Attestation \<Rightarrow> error + ReviewLine" where
  "printReview rt review =
     (case jsonParse rt (decodedDataJson review) of
        Inl e \<Rightarrow> Inl e
      | Inr decoded \<Rightarrow>
          (case findField ''stars'' decoded of
             None \<Rightarrow> Inl TypeError
           | Some starsField \<Rightarrow>
               (case findField ''comment'' decoded of
                  None \<Rightarrow> Inl TypeError
                | Some commentField \<Rightarrow>
                    Inr \<lparr> reviewer = fromDid review, stars_line = value_field starsField,
                          comment_line = value_field commentField \<rparr>)))"

record Listing =
  average :: string
  reviewCount :: nat
  printed :: "ReviewLine list"

definition main_getReviews ::
  "Runtime \<Rightarrow> (Request \<Rightarrow> error + Page) \<Rightarrow> string option \<Rightarrow> error + Listing" where
  "main_getReviews rt get did' =
     (let agentDid = (case did' of None \<Rightarrow> ''undefined'' | Some d \<Rightarrow> d) in
      case snd (getReviewsForAgent get agentDid) of
        Inl e \<Rightarrow> Inl e
      | Inr reviews \<Rightarrow>
          (let reviewCount = length reviews in
           case totalStars rt reviews of
             Inl e \<Rightarrow> Inl e
           | Inr totalStars' \<Rightarrow>
               (let averageStars' = averageStars rt totalStars' reviewCount in
                case reduce (\<lambda>acc review. map_sum (\<lambda>e. e) (\<lambda>l. acc @ [l]) (printReview rt review)) reviews [] of
                  Inl e \<Rightarrow> Inl e
                | Inr lines \<Rightarrow>
                    Inr \<lparr> average = toFixed2 averageStars', reviewCount = reviewCount, printed = lines \<rparr>)))"

section \<open>The shape of a schema identifier, in the words of the specification\<close>

text \<open>
  A 32-byte hex value with prefix: the two characters \<open>0x\<close> and then 64 hexadecimal
  characters.  This definition follows the specification, not the source; the source's
  check is the first line of \<open>checkAuthenticationAuthV2\<close>.
\<close>

definition isHexDigit :: "char \<Rightarrow> bool" where
  "isHexDigit ch = (ch \<in> set ''0123456789abcdefABCDEF'')"

definition spec_bytes32_hex :: "string \<Rightarrow> bool" where
  "spec_bytes32_hex x = (take 2 x = ''0x'' \<and> length (drop 2 x) = 64 \<and> list_all isHexDigit (drop 2 x))"

section \<open>A small world to run the scripts in\<close>

text \<open>
  The AuthVerifier's table of bound identifiers (an address that is not in it is bound to
  zero) and the identities the wallet will create, the next one first.  Two identities
  exist, with identifiers 1 and 2.  The verifier of this world binds the sender to the
  identity that made the proof, whatever was bound before.
\<close>

record World =
  bound :: "(address \<times> int) list"
  fresh :: "did list"

definition demo_idFromDID :: "did \<Rightarrow> error + int" where
  "demo_idFromDID d =
     (if d = ''did:iden3:A'' then Inr 1 else if d = ''did:iden3:B'' then Inr 2
      else Inl (External ''unsupported DID''))"

definition demo_didFromId :: "int \<Rightarrow> error + did" where
  "demo_didFromId i =
     (if i = 1 then Inr ''did:iden3:A'' else if i = 2 then Inr ''did:iden3:B''
      else Inl (External ''checksum error''))"

definition demo_proof :: ProofData where
  "demo_proof = \<lparr> pi_a = [''1'', ''2'', ''1''], pi_b = [[''3'', ''4''], [''5'', ''6''], [''1'', ''0'']],
                   pi_c = [''7'', ''8'', ''1''] \<rparr>"

definition demo_parseLog :: "Log \<Rightarrow> error + LogDescription option" where
  "demo_parseLog l =
     (if topics l = [''AttestationRecorded'']
        then Inr (Some \<lparr> name = ''AttestationRecorded'', args = [data_log l] \<rparr>)
      else if topics l = [''AttestationRevoked'']
        then Inr (Some \<lparr> name = ''AttestationRevoked'', args = [data_log l] \<rparr>)
      else if topics l = [] then Inr None
      else Inl (External ''no matching event''))"

definition demo :: "World collaborators" where
  "demo =
     \<lparr> createIdentity = (\<lambda>w. case fresh w of
                                [] \<Rightarrow> (Inl (External ''no identity''), w)
                              | d # ds \<Rightarrow> (Inr d, w\<lparr> fresh := ds \<rparr>)),
       idFromDID = demo_idFromDID,
       didFromId = demo_didFromId,
       calcChallengeAuthV2 = (\<lambda>signer. int (length signer)),
       generateAuthProof = (\<lambda>w d challenge. Inr \<lparr> proof_zkp = demo_proof, pub_signals = [d] \<rparr>),
       abiEncode = (\<lambda>types values.
                      case values of AArray (AString (Some x) # _) # _ \<Rightarrow> Inr x | _ \<Rightarrow> Inr ''0x''),
       abiDecode = (\<lambda>types encoded. Inr [encoded]),
       parseLog = demo_parseLog,
       newWallet = (\<lambda>key. Inr ''0xSigner''),
       getSchema = (\<lambda>w x. if list_all isHexDigit (drop 2 x)
                             then Inr \<lparr> id_schema = x, schema = ''uint8 stars,string comment'',
                                        resolver = zeroAddress, revocable = True \<rparr>
                             else Inl (External ''invalid BytesLike value'')),
       getDefaultIdType = (\<lambda>w. Inr ''0x01a1''),
       getIdByAddress = (\<lambda>w signer. Inr (case map_of (bound w) signer of None \<Rightarrow> 0 | Some i \<Rightarrow> i)),
       authMethodExists = (\<lambda>w method. Inr (method = ''authV2'')),
       submitResponse = (\<lambda>w signer response.
                           case demo_idFromDID (proof_encoded response) of
                             Inl e \<Rightarrow> (Inl e, w)
                           | Inr i \<Rightarrow> (Inr ''0xa1'', w\<lparr> bound := (signer, i) # bound w \<rparr>)),
       recordAttestation = (\<lambda>w signer request. (Inr ''0xb2'', w)),
       waitTx = (\<lambda>w t. (Inr (Some \<lparr> logs = [], gasUsed = 21000 \<rparr>), w)),
       getAttestation = (\<lambda>w i. Inl (External ''no attestation'')),
       isAttestationValid = (\<lambda>w i. Inr False) \<rparr>"

text \<open>The same world with a verifier that accepts a response and binds nothing.\<close>

definition demo_ineffective :: "World collaborators" where
  "demo_ineffective = demo \<lparr> submitResponse := (\<lambda>w signer response. (Inr ''0xa1'', w)) \<rparr>"

text \<open>The same world with a verifier that lacks the method, and with one that reverts.\<close>

definition demo_no_method :: "World collaborators" where
  "demo_no_method = demo \<lparr> authMethodExists := (\<lambda>w method. Inr False) \<rparr>"

definition demo_reverting :: "World collaborators" where
  "demo_reverting =
     demo \<lparr> submitResponse := (\<lambda>w signer response. (Inl (External ''execution reverted''), w)) \<rparr>"

text \<open>A coder that writes down what it is given: the type strings, then every leaf of the
  values from left to right, each followed by a semicolon.\<close>

fun leaves :: "abi_value \<Rightarrow> string list" where
  "leaves (AString x) = [case x of None \<Rightarrow> ''undefined'' | Some y \<Rightarrow> y]"
| "leaves (AArray xs) = concat (map leaves xs)"

definition listing_coder :: "string list \<Rightarrow> abi_value list \<Rightarrow> error + string" where
  "listing_coder types values =
     Inr (concat (map (\<lambda>x. x @ '';'') (types @ concat (map leaves values))))"

definition schema1 :: string where
  "schema1 = ''0x'' @ replicate 64 (CHR ''c'')"

definition demo_config :: Config where
  "demo_config =
     \<lparr> schemaId = Some schema1, privateKey = Some ''0xkey'', rpcUrl = Some ''https://rpc'',
       stateContractAddress = Some ''0xState'', authVerifierContractAddress = Some ''0xAuth'',
       attestationRegistryContractAddress = Some ''0xRegistry'',
       schemaRegistryContractAddress = Some ''0xSchemas'', chainId = Some ''6913'',
       rhsUrl = Some ''https://rhs'', circuitsPath = Some ''./circuits'' \<rparr>"

definition demo_args :: Args where
  "demo_args = \<lparr> stars = Some ''5'', comment = Some ''great'', recipientDid = Some ''did:iden3:B'',
                  recipientId = None, recipientAddress = None \<rparr>"

text \<open>The attestations API of the example: three pages of 20, 20 and 7 reviews.\<close>

definition mock_items :: "nat \<Rightarrow> nat \<Rightarrow> Attestation list" where
  "mock_items page n =
     map (\<lambda>i. \<lparr> decodedDataJson = ''[]'', fromDid = digits page @ ''/'' @ digits i \<rparr>) [0..<n]"

definition mock_api :: "Request \<Rightarrow> error + Page" where
  "mock_api request =
     (if page_number request = 1 then Inr \<lparr> data_page = mock_items 1 20, totalPages = 3 \<rparr>
      else if page_number request = 2 then Inr \<lparr> data_page = mock_items 2 20, totalPages = 3 \<rparr>
      else if page_number request = 3 then Inr \<lparr> data_page = mock_items 3 7, totalPages = 3 \<rparr>
      else Inl (External ''404''))"

text \<open>
  A runtime whose JSON texts are the words \<open>five\<close>, \<open>four\<close> and \<open>bare\<close> (a review
  without stars), and whose division is exact.
\<close>

definition demo_jsonParse :: "string \<Rightarrow> error + Field list" where
  "demo_jsonParse text =
     (if text = ''five'' then Inr [\<lparr> name_field = ''comment'', value_field = JString ''great'' \<rparr>,
                                   \<lparr> name_field = ''stars'', value_field = JNumber 5 \<rparr>]
      else if text = ''four'' then Inr [\<lparr> name_field = ''stars'', value_field = JNumber 4 \<rparr>,
                                        \<lparr> name_field = ''comment'', value_field = JString ''fine'' \<rparr>]
      else if text = ''bare'' then Inr [\<lparr> name_field = ''comment'', value_field = JString ''hm'' \<rparr>]
      else Inl (External ''SyntaxError''))"

definition demo_runtime :: Runtime where
  "demo_runtime = \<lparr> jsonParse = demo_jsonParse, numberOfString = (\<lambda>x. NaN), fdiv = (\<lambda>x y. x / y) \<rparr>"

definition review :: "string \<Rightarrow> Attestation" where
  "review text = \<lparr> decodedDataJson = text, fromDid = ''did:iden3:B'' \<rparr>"

definition single_page :: "Attestation list \<Rightarrow> Request \<Rightarrow> error + Page" where
  "single_page reviews request = Inr \<lparr> data_page = reviews, totalPages = 1 \<rparr>"

section \<open>Theorems\<close>

text \<open>
  C10. For a Groth16 proof (two rows of at least two coordinates in \<open>pi_b\<close>),
  \<open>prepareZkpProof\<close> returns the first two elements of \<open>pi_a\<close> as \<open>a\<close>, the first two
  elements of \<open>pi_c\<close> as \<open>c\<close>, and as \<open>b\<close> the first two rows of \<open>pi_b\<close> with the two
  coordinates of each row swapped; \<open>packZkpProof\<close> hands the coder four values, in this
  order the public signals, a, b and c, element by element, under the types uint256[],
  uint256[2], uint256[2][2], uint256[2].
\<close>

theorem prepare_and_pack_zkp_proof:
  assumes "2 \<le> length (pi_b p)" and "2 \<le> length (pi_b p ! 0)" and "2 \<le> length (pi_b p ! 1)"
  shows "prepareZkpProof p =
           Inr \<lparr> a = take 2 (pi_a p),
                 b = [[Some (pi_b p ! 0 ! 1), Some (pi_b p ! 0 ! 0)],
                      [Some (pi_b p ! 1 ! 1), Some (pi_b p ! 1 ! 0)]],
                 c = take 2 (pi_c p) \<rparr>
       \<and> packZkpProof encode inputs (take 2 (pi_a p))
            [[Some (pi_b p ! 0 ! 1), Some (pi_b p ! 0 ! 0)],
             [Some (pi_b p ! 1 ! 1), Some (pi_b p ! 1 ! 0)]] (take 2 (pi_c p)) =
           encode [''uint256[] inputs'', ''uint256[2]'', ''uint256[2][2]'', ''uint256[2]'']
             [AArray (map (\<lambda>x. AString (Some x)) inputs),
              AArray (map (\<lambda>x. AString (Some x)) (take 2 (pi_a p))),
              AArray [AArray [AString (Some (pi_b p ! 0 ! 1)), AString (Some (pi_b p ! 0 ! 0))],
                      AArray [AString (Some (pi_b p ! 1 ! 1)), AString (Some (pi_b p ! 1 ! 0))]],
              AArray (map (\<lambda>x. AString (Some x)) (take 2 (pi_c p)))]"
  using assms by (auto simp add: prepareZkpProof_def packZkpProof_def js_index_def slice_def strings_def)

theorem prepare_and_pack_zkp_proof_witness:
  "prepareZkpProof \<lparr> pi_a = [''1'', ''2'', ''1''], pi_b = [[''3'', ''4''], [''5'', ''6''], [''1'', ''0'']],
                     pi_c = [''7'', ''8'', ''1''] \<rparr> =
     Inr \<lparr> a = [''1'', ''2''], b = [[Some ''4'', Some ''3''], [Some ''6'', Some ''5'']], c = [''7'', ''8''] \<rparr>
   \<and> packZkpProof listing_coder [''90'', ''91'', ''92''] [''1'', ''2'']
        [[Some ''4'', Some ''3''], [Some ''6'', Some ''5'']] [''7'', ''8''] =
     Inr ''uint256[] inputs;uint256[2];uint256[2][2];uint256[2];90;91;92;1;2;4;3;6;5;7;8;''"
  using prepare_and_pack_zkp_proof
    [of "\<lparr> pi_a = [''1'', ''2'', ''1''], pi_b = [[''3'', ''4''], [''5'', ''6''], [''1'', ''0'']],
           pi_c = [''7'', ''8'', ''1''] \<rparr>" listing_coder "[''90'', ''91'', ''92'']"]
  by (simp add: listing_coder_def)

subsection \<open>Scanning the receipt\<close>



subsection \<open>Paging\<close>

lemma fetchPages_all:
  assumes "\<forall>k \<in> {page..n}. get \<lparr> recipientDid_query = d, page_number = k, page_size = 20 \<rparr> = Inr (pg k)"
  shows "fetchPages get d page n acc sent =
     (sent @ map (\<lambda>k. \<lparr> recipientDid_query = d, page_number = k, page_size = 20 \<rparr>) [page..n],
      Inr (acc @ concat (map (\<lambda>k. data_page (pg k)) [page..n])))"
  using assms
proof (induction get d page n acc sent rule: fetchPages.induct)
  case (1 get agentDid page n reviews sent)
  show ?case
  proof (cases "page \<le> n")
    case True
    then have here: "get \<lparr> recipientDid_query = agentDid, page_number = page, page_size = 20 \<rparr> = Inr (pg page)"
      using "1.prems" by simp
    have rest: "\<forall>k \<in> {page + 1..n}. get \<lparr> recipientDid_query = agentDid, page_number = k, page_size = 20 \<rparr> = Inr (pg k)"
      using "1.prems" by simp
    have ih: "fetchPages get agentDid (page + 1) n (reviews @ data_page (pg page))
                (sent @ [\<lparr> recipientDid_query = agentDid, page_number = page, page_size = 20 \<rparr>]) =
       ((sent @ [\<lparr> recipientDid_query = agentDid, page_number = page, page_size = 20 \<rparr>]) @
          map (\<lambda>k. \<lparr> recipientDid_query = agentDid, page_number = k, page_size = 20 \<rparr>) [page + 1..n],
        Inr ((reviews @ data_page (pg page)) @ concat (map (\<lambda>k. data_page (pg k)) [page + 1..n])))"
      using "1.IH"[OF True _ _ rest, of "\<lparr> recipientDid_query = agentDid, page_number = page, page_size = 20 \<rparr>" "pg page"] here
      by (simp add: pageSize_def)
    have up: "[page..n] = page # [page + 1..n]"
      using True by (simp add: upto_rec1)
    show ?thesis
      by (subst fetchPages.simps) (simp add: True here ih up pageSize_def)
  next
    case False
    then show ?thesis
      by (subst fetchPages.simps) simp
  qed
qed

text \<open>
  C5. When page 1 and the pages 2 to \<open>totalPages\<close> of page 1 are all served,
  \<open>getReviewsForAgent\<close> asks for page 1 and then for the pages 2 to \<open>totalPages\<close> in
  this order, each with page size 20, and returns the items of page 1 followed by the
  items of the later pages in page order.  The witness is the API with three pages of
  20, 20 and 7 items: 47 items come back, in page order.
\<close>

theorem getReviewsForAgent_drains_pages:
  assumes "get \<lparr> recipientDid_query = d, page_number = 1, page_size = 20 \<rparr> = Inr page1"
    and "\<forall>k \<in> {2..totalPages page1}.
           get \<lparr> recipientDid_query = d, page_number = k, page_size = 20 \<rparr> = Inr (pg k)"
  shows "getReviewsForAgent get d =
     (map (\<lambda>k. \<lparr> recipientDid_query = d, page_number = k, page_size = 20 \<rparr>) (1 # [2..totalPages page1]),
      Inr (data_page page1 @ concat (map (\<lambda>k. data_page (pg k)) [2..totalPages page1])))"
proof (cases "totalPages page1 > 1")
  case True
  show ?thesis
    using assms(1) True fetchPages_all[OF assms(2)]
    by (simp add: getReviewsForAgent_def pageSize_def)
next
  case False
  then show ?thesis
    using assms(1) by (simp add: getReviewsForAgent_def pageSize_def)
qed

theorem getReviewsForAgent_drains_pages_witness:
  "getReviewsForAgent mock_api ''did:iden3:A'' =
     ([\<lparr> recipientDid_query = ''did:iden3:A'', page_number = 1, page_size = 20 \<rparr>,
       \<lparr> recipientDid_query = ''did:iden3:A'', page_number = 2, page_size = 20 \<rparr>,
       \<lparr> recipientDid_query = ''did:iden3:A'', page_number = 3, page_size = 20 \<rparr>],
      Inr (mock_items 1 20 @ mock_items 2 20 @ mock_items 3 7))
   \<and> length (mock_items 1 20 @ mock_items 2 20 @ mock_items 3 7) = 47"
proof -
  have up: "[2..3::int] = [2, 3]"
    by (simp add: upto_rec1)
  have first: "mock_api \<lparr> recipientDid_query = ''did:iden3:A'', page_number = 1, page_size = 20 \<rparr> =
                 Inr \<lparr> data_page = mock_items 1 20, totalPages = 3 \<rparr>"
    by (simp add: mock_api_def)
  have later: "\<forall>k \<in> {2..totalPages \<lparr> data_page = mock_items 1 20, totalPages = 3 \<rparr>}.
      mock_api \<lparr> recipientDid_query = ''did:iden3:A'', page_number = k, page_size = 20 \<rparr> =
      Inr (if k = 2 then \<lparr> data_page = mock_items 2 20, totalPages = 3 \<rparr>
           else \<lparr> data_page = mock_items 3 7, totalPages = 3 \<rparr>)"
    by (auto simp: mock_api_def)
  show ?thesis
    using getReviewsForAgent_drains_pages[OF first later]
    by (simp add: up mock_items_def)
qed

subsection \<open>Aggregating the reviews\<close>

lemma digits_small: "digits 467 = ''467''" "digits 0 = ''0''"
  by (simp_all add: digits.simps digitChar_def)

lemma reduce_addStars_sum:
  assumes "\<forall>r\<in>set reviews. \<exists>fs f. jsonParse rt (decodedDataJson r) = Inr fs \<and>
             findField ''stars'' fs = Some f \<and> value_field f = JNumber (st r)"
  shows "reduce (addStars rt) reviews (Num acc) = Inr (Num (acc + of_int (sum_list (map st reviews))))"
  using assms
proof (induction reviews arbitrary: acc)
  case Nil
  then show ?case by simp
next
  case (Cons r rs)
  from Cons.prems obtain fs f where
    "jsonParse rt (decodedDataJson r) = Inr fs" "findField ''stars'' fs = Some f"
    "value_field f = JNumber (st r)"
    by auto
  then have step: "addStars rt (Num acc) r = Inr (Num (acc + of_int (st r)))"
    by (simp add: addStars_def Number_def add_def)
  have "reduce (addStars rt) rs (Num (acc + of_int (st r))) =
          Inr (Num ((acc + of_int (st r)) + of_int (sum_list (map st rs))))"
    using Cons.IH Cons.prems by simp
  then show ?case
    using step by (simp add: add.assoc)
qed

lemma reduce_printReview_returns:
  assumes "\<forall>r\<in>set reviews. \<exists>fs f cf. jsonParse rt (decodedDataJson r) = Inr fs \<and>
             findField ''stars'' fs = Some f \<and> findField ''comment'' fs = Some cf"
  shows "\<exists>ls. reduce (\<lambda>acc review. map_sum (\<lambda>e. e) (\<lambda>l. acc @ [l]) (printReview rt review)) reviews acc = Inr ls"
  using assms
proof (induction reviews arbitrary: acc)
  case Nil
  then show ?case by simp
next
  case (Cons r rs)
  from Cons.prems obtain fs f cf where
    "jsonParse rt (decodedDataJson r) = Inr fs" "findField ''stars'' fs = Some f"
    "findField ''comment'' fs = Some cf"
    by auto
  then have "\<exists>l. printReview rt r = Inr l"
    by (simp add: printReview_def)
  then obtain l where "printReview rt r = Inr l" by blast
  moreover have "\<exists>ls. reduce (\<lambda>acc review. map_sum (\<lambda>e. e) (\<lambda>l. acc @ [l]) (printReview rt review)) rs (acc @ [l]) = Inr ls"
    using Cons.IH Cons.prems by simp
  ultimately show ?case by simp
qed

lemma toFixed2_near_14_3:
  assumes "\<bar>q - 14 / 3\<bar> \<le> (1 / 1000 :: rat)"
  shows "toFixed2 (Num q) = ''4.67''"
proof -
  have pos: "0 \<le> q" using assms by linarith
  have lo: "467 \<le> q * 100 + 1 / 2" using assms by linarith
  have hi: "q * 100 + 1 / 2 < 468" using assms by linarith
  have "\<lfloor>q * 100 + 1 / 2\<rfloor> = 467"
    using lo hi by (simp add: floor_eq_iff)
  then have n: "nat \<lfloor>q * 100 + 1 / 2\<rfloor> = 467" by simp
  show ?thesis
    unfolding toFixed2_def using pos by (simp add: n digits_small Let_def)
qed

lemma toFixed2_zero: "toFixed2 (Num 0) = ''0.00''"
  by (simp add: toFixed2_def digits_small Let_def)

text \<open>
  C6. When every fetched review decodes to a field list with a numeric \<open>stars\<close> field
  (and a \<open>comment\<close> field, which the printing loop reads), the script prints the number
  of reviews and, to two decimals, the sum of the stars divided by that number, or 0
  when there is no review.  For stars 5, 4, 5 and a division that is accurate to a
  relative error of \<open>2^-53\<close>, as that of doubles is, the average printed is 4.67; for no
  review it is 0.00.
\<close>

theorem average_rating:
  assumes fetched: "snd (getReviewsForAgent get agentDid) = Inr reviews"
    and fields: "\<forall>r\<in>set reviews. \<exists>fs f cf. jsonParse rt (decodedDataJson r) = Inr fs \<and>
             findField ''stars'' fs = Some f \<and> value_field f = JNumber (st r) \<and>
             findField ''comment'' fs = Some cf"
  shows "\<exists>L. main_getReviews rt get (Some agentDid) = Inr L
           \<and> reviewCount L = length reviews
           \<and> totalStars rt reviews = Inr (Num (of_int (sum_list (map st reviews))))
           \<and> average L = toFixed2 (if length reviews = 0 then Num 0
                else Num (fdiv rt (of_int (sum_list (map st reviews))) (of_nat (length reviews))))
           \<and> (map st reviews = [5, 4, 5] \<and> \<bar>fdiv rt 14 3 - 14 / 3\<bar> \<le> 14 / 3 / 2 ^ 53
                \<longrightarrow> average L = ''4.67'')
           \<and> (reviews = [] \<longrightarrow> average L = ''0.00'')"
proof -
  let ?sum = "of_int (sum_list (map st reviews)) :: rat"
  let ?avg = "if length reviews = 0 then Num 0 else Num (fdiv rt ?sum (of_nat (length reviews)))"
  have stars: "\<forall>r\<in>set reviews. \<exists>fs f. jsonParse rt (decodedDataJson r) = Inr fs \<and>
             findField ''stars'' fs = Some f \<and> value_field f = JNumber (st r)"
    using fields by blast
  have both: "\<forall>r\<in>set reviews. \<exists>fs f cf. jsonParse rt (decodedDataJson r) = Inr fs \<and>
             findField ''stars'' fs = Some f \<and> findField ''comment'' fs = Some cf"
    using fields by blast
  have total: "totalStars rt reviews = Inr (Num ?sum)"
    using reduce_addStars_sum[OF stars, of 0] by (simp add: totalStars_def)
  have "\<exists>ls. reduce (\<lambda>acc review. map_sum (\<lambda>e. e) (\<lambda>l. acc @ [l]) (printReview rt review)) reviews [] = Inr ls"
    using reduce_printReview_returns[OF both] by blast
  then obtain ls where ls: "reduce (\<lambda>acc review. map_sum (\<lambda>e. e) (\<lambda>l. acc @ [l]) (printReview rt review)) reviews [] = Inr ls"
    by blast
  have avg: "averageStars rt (Num ?sum) (length reviews) = ?avg"
    by (simp add: averageStars_def)
  have run: "main_getReviews rt get (Some agentDid) =
               Inr \<lparr> average = toFixed2 ?avg, reviewCount = length reviews, printed = ls \<rparr>"
    unfolding main_getReviews_def using fetched total ls avg by (simp add: Let_def)
  have five: "toFixed2 ?avg = ''4.67''"
    if "map st reviews = [5, 4, 5]" and "\<bar>fdiv rt 14 3 - 14 / 3\<bar> \<le> 14 / 3 / 2 ^ 53"
  proof -
    have len: "length reviews = 3"
      using that(1) by (metis length_map length_Cons list.size(3) numeral_3_eq_3)
    have "\<bar>fdiv rt 14 3 - 14 / 3\<bar> \<le> (1 / 1000 :: rat)"
      using that(2) by simp
    then show ?thesis
      using toFixed2_near_14_3 len that(1) by simp
  qed
  have none: "toFixed2 ?avg = ''0.00''" if "reviews = []"
    using that toFixed2_zero by simp
  show ?thesis
    using run total five none by simp
qed

theorem average_rating_witness:
  "\<exists>L. main_getReviews demo_runtime (single_page [review ''five'', review ''four'', review ''five''])
          (Some ''did:iden3:A'') = Inr L
      \<and> reviewCount L = 3 \<and> average L = ''4.67''"
proof -
  have fetched: "snd (getReviewsForAgent (single_page [review ''five'', review ''four'', review ''five''])
                   ''did:iden3:A'') = Inr [review ''five'', review ''four'', review ''five'']"
    by (simp add: getReviewsForAgent_def single_page_def)
  have fields: "\<forall>r\<in>set [review ''five'', review ''four'', review ''five''].
      \<exists>fs f cf. jsonParse demo_runtime (decodedDataJson r) = Inr fs \<and>
             findField ''stars'' fs = Some f \<and>
             value_field f = JNumber (if decodedDataJson r = ''five'' then 5 else 4) \<and>
             findField ''comment'' fs = Some cf"
    by (simp add: review_def demo_runtime_def demo_jsonParse_def findField_def)
  have exact: "\<bar>fdiv demo_runtime 14 3 - 14 / 3\<bar> \<le> 14 / 3 / 2 ^ 53"
    by (simp add: demo_runtime_def)
  have stars: "map (\<lambda>r. if decodedDataJson r = ''five'' then 5 else 4)
                 [review ''five'', review ''four'', review ''five''] = [5, 4, 5 :: int]"
    by (simp add: review_def)
  show ?thesis
    using average_rating[OF fetched fields] exact stars by auto
qed

lemma reduce_addStars_throws:
  assumes "\<exists>r\<in>set reviews. \<exists>fs. jsonParse rt (decodedDataJson r) = Inr fs \<and> (\<forall>f\<in>set fs. name_field f \<noteq> ''stars'')"
  shows "\<exists>e. reduce (addStars rt) reviews acc = Inl e"
  using assms
proof (induction reviews arbitrary: acc)
  case Nil
  then show ?case by simp
next
  case (Cons r rs)
  show ?case
  proof (cases "addStars rt acc r")
    case (Inl e)
    then show ?thesis by simp
  next
    case (Inr acc')
    have "\<not> (\<exists>fs. jsonParse rt (decodedDataJson r) = Inr fs \<and> (\<forall>f\<in>set fs. name_field f \<noteq> ''stars''))"
    proof
      assume "\<exists>fs. jsonParse rt (decodedDataJson r) = Inr fs \<and> (\<forall>f\<in>set fs. name_field f \<noteq> ''stars'')"
      then obtain fs where "jsonParse rt (decodedDataJson r) = Inr fs" "\<forall>f\<in>set fs. name_field f \<noteq> ''stars''"
        by blast
      then have "addStars rt acc r = Inl TypeError"
        by (simp add: addStars_def findField_def find_None_iff[THEN iffD2])
      with Inr show False by simp
    qed
    with Cons.prems have "\<exists>r\<in>set rs. \<exists>fs. jsonParse rt (decodedDataJson r) = Inr fs \<and> (\<forall>f\<in>set fs. name_field f \<noteq> ''stars'')"
      by auto
    from Cons.IH[OF this] obtain e where "reduce (addStars rt) rs acc' = Inl e" by blast
    with Inr show ?thesis by simp
  qed
qed

lemma reduce_addStars_error_kind:
  assumes "\<forall>r\<in>set reviews. \<exists>fs. jsonParse rt (decodedDataJson r) = Inr fs"
    and "reduce (addStars rt) reviews acc = Inl e"
  shows "e = TypeError"
  using assms
proof (induction reviews arbitrary: acc)
  case Nil
  then show ?case by simp
next
  case (Cons r rs)
  from Cons.prems(1) obtain fs where fs: "jsonParse rt (decodedDataJson r) = Inr fs" by auto
  show ?case
  proof (cases "findField ''stars'' fs")
    case None
    then show ?thesis using Cons.prems(2) fs by (simp add: addStars_def)
  next
    case (Some f)
    then show ?thesis using Cons.prems fs Cons.IH by (simp add: addStars_def)
  qed
qed

text \<open>
  C9. When one of the fetched reviews decodes to a field list without a field named
  \<open>stars\<close>, the aggregation throws; the review is neither passed over nor counted as
  zero.  The whole script rejects with that error and exits with code 1.  The error is
  the \<open>TypeError\<close> of reading a property of \<^verbatim>\<open>undefined\<close> when every review is
  well-formed JSON.
\<close>

theorem missing_stars_field_throws:
  assumes fetched: "snd (getReviewsForAgent get agentDid) = Inr reviews"
    and bare: "\<exists>r\<in>set reviews. \<exists>fs. jsonParse rt (decodedDataJson r) = Inr fs \<and>
                 (\<forall>f\<in>set fs. name_field f \<noteq> ''stars'')"
  shows "\<exists>e. totalStars rt reviews = Inl e
           \<and> main_getReviews rt get (Some agentDid) = Inl e
           \<and> exitCode (main_getReviews rt get (Some agentDid)) = 1
           \<and> ((\<forall>r\<in>set reviews. \<exists>fs. jsonParse rt (decodedDataJson r) = Inr fs) \<longrightarrow> e = TypeError)"
proof -
  from reduce_addStars_throws[OF bare, of "Num 0"]
  obtain e where e: "totalStars rt reviews = Inl e"
    by (auto simp: totalStars_def)
  have run: "main_getReviews rt get (Some agentDid) = Inl e"
    unfolding main_getReviews_def using fetched e by (simp add: Let_def)
  have kind: "e = TypeError" if "\<forall>r\<in>set reviews. \<exists>fs. jsonParse rt (decodedDataJson r) = Inr fs"
    using reduce_addStars_error_kind[OF that] e by (simp add: totalStars_def)
  show ?thesis
    using e run kind by (auto simp: exitCode_def)
qed

theorem missing_stars_field_throws_witness:
  "main_getReviews demo_runtime (single_page [review ''five'', review ''bare'', review ''four''])
     (Some ''did:iden3:A'') = Inl TypeError
   \<and> exitCode (main_getReviews demo_runtime (single_page [review ''five'', review ''bare'', review ''four''])
       (Some ''did:iden3:A'')) = 1"
proof -
  have fetched: "snd (getReviewsForAgent (single_page [review ''five'', review ''bare'', review ''four''])
                   ''did:iden3:A'') = Inr [review ''five'', review ''bare'', review ''four'']"
    by (simp add: getReviewsForAgent_def single_page_def)
  have bare: "\<exists>r\<in>set [review ''five'', review ''bare'', review ''four''].
      \<exists>fs. jsonParse demo_runtime (decodedDataJson r) = Inr fs \<and> (\<forall>f\<in>set fs. name_field f \<noteq> ''stars'')"
    by (simp add: review_def demo_runtime_def demo_jsonParse_def)
  have parsed: "\<forall>r\<in>set [review ''five'', review ''bare'', review ''four''].
      \<exists>fs. jsonParse demo_runtime (decodedDataJson r) = Inr fs"
    by (simp add: review_def demo_runtime_def demo_jsonParse_def)
  show ?thesis
    using missing_stars_field_throws[OF fetched bare] parsed by auto
qed

subsection \<open>Authentication\<close>

lemmas io_defs = returnIO_def throwIO_def liftIO_def bindIO_def catchIO_def readIO_def writeIO_def logIO_def

lemma startsWith_0x: "startsWith x ''0x'' = (take 2 x = ''0x'')"
  by (simp add: startsWith_def numeral_2_eq_2)

lemma returns_candidate:
  assumes "checkAuthenticationAuthV2 g sid wallet (w, tr) = (Inr r, w', tr')"
  shows "\<exists>d w1. createIdentity g w = (Inr d, w1) \<and> idFromDID g d = Inr (userId r)"
  using assms
  unfolding checkAuthenticationAuthV2_def io_defs
  by (auto simp: Let_def split: if_splits sum.splits prod.splits)

lemma submitAuthentication_events:
  assumes "submitAuthentication g signer d (w, tr) = (res, w', tr')"
  shows "\<exists>new. tr' = tr @ new \<and> (\<forall>x y. WarnIdDiffers x y \<notin> set new)"
  using assms
  unfolding submitAuthentication_def io_defs
  by (auto simp: Let_def split: if_splits sum.splits prod.splits)

lemma submitAuthentication_returns:
  assumes "submitAuthentication g signer d (w, tr) = (Inr u, w', tr')"
  shows "\<exists>response authTx. tr' = tr @ [GenerateAuthProof d, AuthMethodExists ''authV2'',
            SubmitResponse response, Wait authTx, GetIdByAddress signer]"
  using assms
  unfolding submitAuthentication_def io_defs
  by (auto simp: Let_def split: if_splits sum.splits prod.splits)

lemma checkAuthentication_events:
  assumes "checkAuthenticationAuthV2 g sid wallet (w, tr) = (res, w', tr')"
  shows "\<exists>new. tr' = tr @ new \<and> (\<forall>x y. WarnIdDiffers x y \<notin> set new)"
  using assms
  unfolding checkAuthenticationAuthV2_def io_defs
  by (auto simp: Let_def split: if_splits sum.splits prod.splits dest!: submitAuthentication_events)

text \<open>
  C8. The branch that puts the on-chain identifier in place of the local one without
  submitting a transaction is never taken.  It is entered only when \<open>currentUserId\<close> is
  not zero and equals \<open>userId\<close>, and then the two print the same, so the inner test is
  false: no run prints the warning of that branch.  Hence a run that returns without
  having submitted an authentication response returns the identifier derived from the
  identity it created.
\<close>

theorem reconciliation_unreachable:
  assumes "checkAuthenticationAuthV2 g sid wallet (w, tr) = (res, w', tr')"
  shows "(\<forall>cur uid. \<not> (cur = 0 \<or> cur \<noteq> uid) \<longrightarrow> bigint_toString cur = bigint_toString uid)
       \<and> (\<exists>new. tr' = tr @ new
             \<and> (\<forall>cur uid. WarnIdDiffers cur uid \<notin> set new)
             \<and> (\<forall>r. res = Inr r \<and> (\<forall>response. SubmitResponse response \<notin> set new) \<longrightarrow>
                   (\<exists>d w1. createIdentity g w = (Inr d, w1) \<and> idFromDID g d = Inr (userId r))))"
proof -
  from checkAuthentication_events[OF assms]
  obtain new where new: "tr' = tr @ new" "\<forall>x y. WarnIdDiffers x y \<notin> set new"
    by blast
  have "\<exists>d w1. createIdentity g w = (Inr d, w1) \<and> idFromDID g d = Inr (userId r)" if "res = Inr r" for r
    using returns_candidate[of g sid wallet w tr r w' tr'] assms that by simp
  then show ?thesis
    using new by auto
qed

theorem reconciliation_unreachable_witness:
  "checkAuthenticationAuthV2 demo schema1 ''0xSigner''
     (\<lparr> bound = [(''0xSigner'', 1)], fresh = [''did:iden3:A''] \<rparr>, []) =
     (Inr \<lparr> userId = 1, userDid = ''did:iden3:A'', signerAddress = ''0xSigner'' \<rparr>,
      \<lparr> bound = [(''0xSigner'', 1)], fresh = [] \<rparr>,
      [CreateIdentity, GetSchema schema1, GetDefaultIdType, GetIdByAddress ''0xSigner''])
   \<and> (\<exists>d w1. createIdentity demo \<lparr> bound = [(''0xSigner'', 1)], fresh = [''did:iden3:A''] \<rparr> = (Inr d, w1)
          \<and> idFromDID demo d = Inr 1)"
proof -
  have run: "checkAuthenticationAuthV2 demo schema1 ''0xSigner''
     (\<lparr> bound = [(''0xSigner'', 1)], fresh = [''did:iden3:A''] \<rparr>, []) =
     (Inr \<lparr> userId = 1, userDid = ''did:iden3:A'', signerAddress = ''0xSigner'' \<rparr>,
      \<lparr> bound = [(''0xSigner'', 1)], fresh = [] \<rparr>,
      [CreateIdentity, GetSchema schema1, GetDefaultIdType, GetIdByAddress ''0xSigner''])"
    by code_simp
  show ?thesis
    using reconciliation_unreachable[OF run] run by auto
qed

text \<open>
  C7 on the source.  In a run that has to authenticate (the signer is unbound, or bound
  to another identifier than the local one), in which the proof is made and packed, the
  method \<open>authV2\<close> exists, the response is submitted and included, and the identifier
  read again for the signer is still zero: \<open>checkAuthenticationAuthV2\<close> throws, \<open>main\<close>
  rejects with the same error after the same calls, none of which is
  \<open>recordAttestation\<close>, and the script exits with code 1.  The error is not the one
  thrown for the zero identifier: that one is caught by the innermost handler, which
  throws its fixed message about the auth method in its place.
\<close>

theorem ineffective_authentication_is_fatal:
  assumes config: "checkRequiredParams cfg = Inr ()"
    and key: "newWallet g (orElse (privateKey cfg) []) = Inr signer"
    and recipient': "\<not> (trim (orElse (recipientDid argv) []) = [] \<and> orElse (recipientId argv) ''0'' = ''0''
                          \<and> orElse (recipientAddress argv) zeroAddress = zeroAddress)"
    and sid: "sid = orElse (schemaId cfg) []"
    and format: "take 2 sid = ''0x''" "length sid = 66"
    and identity: "createIdentity g w = (Inr d, w1)"
    and found: "getSchema g w1 sid = Inr sr" "id_schema sr \<noteq> zeroHash"
    and idType: "getDefaultIdType g w1 = Inr t"
    and candidate: "idFromDID g d = Inr A"
    and current: "getIdByAddress g w1 signer = Inr B" "B = 0 \<or> B \<noteq> A"
    and proved: "generateAuthProof g w1 d (calcChallengeAuthV2 g signer) = Inr zkp"
    and prepared: "prepareZkpProof (proof_zkp zkp) = Inr p"
    and packed: "packZkpProof (abiEncode g) (pub_signals zkp) (a p) (b p) (c p) = Inr enc"
    and registered: "authMethodExists g w1 ''authV2'' = Inr True"
    and sent: "submitResponse g w1 signer \<lparr> authMethod = ''authV2'', proof_encoded = enc \<rparr> = (Inr authTx, w2)"
    and included: "waitTx g w2 authTx = (Inr receipt, w3)"
    and still_zero: "getIdByAddress g w3 signer = Inr 0"
  shows "checkAuthenticationAuthV2 g sid signer (w, tr) =
           (Inl (UserAuthenticationFailed (CouldNotAuthenticate AuthMethodMisconfigured)), w3,
            tr @ [CreateIdentity, GetSchema sid, GetDefaultIdType, GetIdByAddress signer,
                  GenerateAuthProof d, AuthMethodExists ''authV2'',
                  SubmitResponse \<lparr> authMethod = ''authV2'', proof_encoded = enc \<rparr>,
                  Wait authTx, GetIdByAddress signer])
       \<and> main_createReview g cfg argv (w, tr) =
           (Inl (UserAuthenticationFailed (CouldNotAuthenticate AuthMethodMisconfigured)), w3,
            tr @ [CreateIdentity, GetSchema sid, GetDefaultIdType, GetIdByAddress signer,
                  GenerateAuthProof d, AuthMethodExists ''authV2'',
                  SubmitResponse \<lparr> authMethod = ''authV2'', proof_encoded = enc \<rparr>,
                  Wait authTx, GetIdByAddress signer])
       \<and> exitCode (fst (main_createReview g cfg argv (w, tr))) = 1"
proof -
  let ?events = "[GenerateAuthProof d, AuthMethodExists ''authV2'',
                  SubmitResponse \<lparr> authMethod = ''authV2'', proof_encoded = enc \<rparr>,
                  Wait authTx, GetIdByAddress signer]"
  let ?e = "UserAuthenticationFailed (CouldNotAuthenticate AuthMethodMisconfigured)"
  have block: "submitAuthentication g signer d (w1, tr0) = (Inl ?e, w3, tr0 @ ?events)" for tr0
    unfolding submitAuthentication_def io_defs
    using proved prepared packed registered sent included still_zero
    by (simp add: Let_def)
  have auth: "checkAuthenticationAuthV2 g sid signer (w, tr) =
           (Inl ?e, w3, tr @ [CreateIdentity, GetSchema sid, GetDefaultIdType, GetIdByAddress signer] @ ?events)"
    unfolding checkAuthenticationAuthV2_def
    using format identity found idType candidate current block
    by (auto simp: io_defs Let_def startsWith_0x)
  have run: "main_createReview g cfg argv (w, tr) =
           (Inl ?e, w3, tr @ [CreateIdentity, GetSchema sid, GetDefaultIdType, GetIdByAddress signer] @ ?events)"
    unfolding main_createReview_def
    using config key recipient' sid[symmetric] auth
    by (auto simp: io_defs Let_def)
  show ?thesis
    using auth run by (simp add: exitCode_def)
qed


theorem ineffective_authentication_is_fatal_witness:
  "main_createReview demo_ineffective demo_config demo_args (\<lparr> bound = [], fresh = [''did:iden3:A''] \<rparr>, []) =
     (Inl (UserAuthenticationFailed (CouldNotAuthenticate AuthMethodMisconfigured)),
      \<lparr> bound = [], fresh = [] \<rparr>,
      [CreateIdentity, GetSchema schema1, GetDefaultIdType, GetIdByAddress ''0xSigner'',
       GenerateAuthProof ''did:iden3:A'', AuthMethodExists ''authV2'',
       SubmitResponse \<lparr> authMethod = ''authV2'', proof_encoded = ''did:iden3:A'' \<rparr>,
       Wait ''0xa1'', GetIdByAddress ''0xSigner''])
   \<and> exitCode (fst (main_createReview demo_ineffective demo_config demo_args
         (\<lparr> bound = [], fresh = [''did:iden3:A''] \<rparr>, []))) = 1"
proof -
  let ?after = "\<lparr> bound = [], fresh = [] \<rparr>"
  let ?sr = "\<lparr> id_schema = schema1, schema = ''uint8 stars,string comment'',
               resolver = zeroAddress, revocable = True \<rparr>"
  let ?zkp = "\<lparr> proof_zkp = demo_proof, pub_signals = [''did:iden3:A''] \<rparr>"
  let ?p = "\<lparr> a = [''1'', ''2''], b = [[Some ''4'', Some ''3''], [Some ''6'', Some ''5'']], c = [''7'', ''8''] \<rparr>"
  have h1: "checkRequiredParams demo_config = Inr ()" by code_simp
  have h2: "newWallet demo_ineffective (orElse (privateKey demo_config) []) = Inr ''0xSigner''" by code_simp
  have h3: "\<not> (trim (orElse (recipientDid demo_args) []) = [] \<and> orElse (recipientId demo_args) ''0'' = ''0''
                \<and> orElse (recipientAddress demo_args) zeroAddress = zeroAddress)" by code_simp
  have h4: "schema1 = orElse (schemaId demo_config) []" by code_simp
  have h5: "take 2 schema1 = ''0x''" by code_simp
  have h6: "length schema1 = 66" by code_simp
  have h7: "createIdentity demo_ineffective \<lparr> bound = [], fresh = [''did:iden3:A''] \<rparr> = (Inr ''did:iden3:A'', ?after)"
    by code_simp
  have h8: "getSchema demo_ineffective ?after schema1 = Inr ?sr" by code_simp
  have h9: "id_schema ?sr \<noteq> zeroHash" by code_simp
  have h10: "getDefaultIdType demo_ineffective ?after = Inr ''0x01a1''" by code_simp
  have h11: "idFromDID demo_ineffective ''did:iden3:A'' = Inr 1" by code_simp
  have h12: "getIdByAddress demo_ineffective ?after ''0xSigner'' = Inr 0" by code_simp
  have h13: "(0::int) = 0 \<or> (0::int) \<noteq> 1" by simp
  have h14: "generateAuthProof demo_ineffective ?after ''did:iden3:A'' (calcChallengeAuthV2 demo_ineffective ''0xSigner'') = Inr ?zkp"
    by code_simp
  have h15: "prepareZkpProof (proof_zkp ?zkp) = Inr ?p" by code_simp
  have h16: "packZkpProof (abiEncode demo_ineffective) (pub_signals ?zkp) (a ?p) (b ?p) (c ?p) = Inr ''did:iden3:A''"
    by code_simp
  have h17: "authMethodExists demo_ineffective ?after ''authV2'' = Inr True" by code_simp
  have h18: "submitResponse demo_ineffective ?after ''0xSigner'' \<lparr> authMethod = ''authV2'', proof_encoded = ''did:iden3:A'' \<rparr>
               = (Inr ''0xa1'', ?after)" by code_simp
  have h19: "waitTx demo_ineffective ?after ''0xa1'' = (Inr (Some \<lparr> logs = [], gasUsed = 21000 \<rparr>), ?after)" by code_simp
  show ?thesis
    using ineffective_authentication_is_fatal[OF h1 h2 h3 h4 h5 h6 h7 h8 h9 h10 h11 h12 h13 h14 h15 h16 h17 h18 h19 h12, of "[]"]
    by (simp add: exitCode_def)
qed

text \<open>
  The error of the run in which the binding did not take effect is the error of a run
  in which the verifier lacks the method, and of one in which the response reverts.
\<close>

theorem ineffective_and_unavailable_are_the_same_error:
  "fst (submitAuthentication demo_ineffective ''0xSigner'' ''did:iden3:A'' (\<lparr> bound = [], fresh = [] \<rparr>, [])) =
     Inl (UserAuthenticationFailed (CouldNotAuthenticate AuthMethodMisconfigured))
   \<and> fst (submitAuthentication demo_no_method ''0xSigner'' ''did:iden3:A'' (\<lparr> bound = [], fresh = [] \<rparr>, [])) =
     Inl (UserAuthenticationFailed (CouldNotAuthenticate AuthMethodMisconfigured))
   \<and> fst (submitAuthentication demo_reverting ''0xSigner'' ''did:iden3:A'' (\<lparr> bound = [], fresh = [] \<rparr>, [])) =
     Inl (UserAuthenticationFailed (CouldNotAuthenticate AuthMethodMisconfigured))"
  by code_simp

subsection \<open>The format of the schema identifier\<close>

text \<open>
  C4, as the source has it.  A schema identifier that does not begin with \<open>0x\<close> or whose
  length is not 66 makes \<open>checkAuthenticationAuthV2\<close> throw \<open>InvalidSchemaFormat\<close> at
  once: the world is unchanged and no call has been made.
\<close>

theorem invalid_schema_format_before_any_call:
  assumes "take 2 sid \<noteq> ''0x'' \<or> length sid \<noteq> 66"
  shows "checkAuthenticationAuthV2 g sid wallet (w, tr) = (Inl InvalidSchemaFormat, w, tr)"
  using assms by (auto simp: checkAuthenticationAuthV2_def startsWith_0x throwIO_def)

theorem invalid_schema_format_before_any_call_witness:
  "checkAuthenticationAuthV2 demo ''0x1234'' ''0xSigner'' (\<lparr> bound = [], fresh = [''did:iden3:A''] \<rparr>, []) =
     (Inl InvalidSchemaFormat, \<lparr> bound = [], fresh = [''did:iden3:A''] \<rparr>, [])"
  using invalid_schema_format_before_any_call[of "''0x1234''" demo "''0xSigner''"
          "\<lparr> bound = [], fresh = [''did:iden3:A''] \<rparr>" "[]"]
  by simp

text \<open>
  C4 as stated asks this of every string that is not \<open>0x\<close> followed by 64 hexadecimal
  characters.  The string \<open>0x\<close> followed by 64 letters \<open>g\<close> is not of that shape, yet the
  check lets it through: an identity is created and the schema registry is asked, and
  the error of the run is the one the registry call throws.
\<close>

theorem non_hex_schema_passes_format_check:
  "\<not> spec_bytes32_hex (''0x'' @ replicate 64 (CHR ''g''))
   \<and> checkAuthenticationAuthV2 demo (''0x'' @ replicate 64 (CHR ''g'')) ''0xSigner''
        (\<lparr> bound = [], fresh = [''did:iden3:A''] \<rparr>, []) =
       (Inl (External ''invalid BytesLike value''), \<lparr> bound = [], fresh = [] \<rparr>,
        [CreateIdentity, GetSchema (''0x'' @ replicate 64 (CHR ''g''))])"
  by code_simp

subsection \<open>Running twice\<close>

text \<open>
  C2 on the source.  A first run returns an identifier and leaves the signer bound to
  it; the second run, for the same signer and schema, creates its own identity, whose
  identifier is another one.  Then a second run that returns has submitted an
  authentication response, a write, and returns the new identifier, not the one of the
  first run.  The wallet creates a new identity in every run, so this is every second
  run; the witness is the run of two identities with identifiers 1 and 2.
\<close>

theorem second_run_authenticates_again:
  assumes first_run: "checkAuthenticationAuthV2 g sid signer (w0, tr0) = (Inr r1, w, tr)"
    and second_run: "checkAuthenticationAuthV2 g sid signer (w, tr) = (Inr r2, w', tr')"
    and identity: "createIdentity g w = (Inr d, w1)"
    and candidate: "idFromDID g d = Inr A"
    and established: "getIdByAddress g w1 signer = Inr (userId r1)" "userId r1 \<noteq> 0"
    and fresh_identity: "A \<noteq> userId r1"
  shows "(\<exists>response authTx. tr' = tr @ [CreateIdentity, GetSchema sid, GetDefaultIdType, GetIdByAddress signer,
              GenerateAuthProof d, AuthMethodExists ''authV2'', SubmitResponse response, Wait authTx,
              GetIdByAddress signer])
       \<and> userId r2 = A \<and> userId r2 \<noteq> userId r1"
proof -
  from returns_candidate[OF second_run] identity candidate have local: "userId r2 = A"
    by auto
  have "\<exists>response authTx. tr' = tr @ [CreateIdentity, GetSchema sid, GetDefaultIdType, GetIdByAddress signer,
              GenerateAuthProof d, AuthMethodExists ''authV2'', SubmitResponse response, Wait authTx,
              GetIdByAddress signer]"
    using second_run identity candidate established fresh_identity
    unfolding checkAuthenticationAuthV2_def io_defs
    by (auto simp: Let_def split: if_splits sum.splits prod.splits dest!: submitAuthentication_returns)
  with local fresh_identity show ?thesis
    by simp
qed

theorem second_run_authenticates_again_witness:
  "checkAuthenticationAuthV2 demo schema1 ''0xSigner''
     (\<lparr> bound = [], fresh = [''did:iden3:A'', ''did:iden3:B''] \<rparr>, []) =
     (Inr \<lparr> userId = 1, userDid = ''did:iden3:A'', signerAddress = ''0xSigner'' \<rparr>,
      \<lparr> bound = [(''0xSigner'', 1)], fresh = [''did:iden3:B''] \<rparr>,
      [CreateIdentity, GetSchema schema1, GetDefaultIdType, GetIdByAddress ''0xSigner'',
       GenerateAuthProof ''did:iden3:A'', AuthMethodExists ''authV2'',
       SubmitResponse \<lparr> authMethod = ''authV2'', proof_encoded = ''did:iden3:A'' \<rparr>,
       Wait ''0xa1'', GetIdByAddress ''0xSigner''])
   \<and> getIdByAddress demo \<lparr> bound = [(''0xSigner'', 1)], fresh = [] \<rparr> ''0xSigner'' = Inr 1
   \<and> checkAuthenticationAuthV2 demo schema1 ''0xSigner''
        (\<lparr> bound = [(''0xSigner'', 1)], fresh = [''did:iden3:B''] \<rparr>, []) =
       (Inr \<lparr> userId = 2, userDid = ''did:iden3:B'', signerAddress = ''0xSigner'' \<rparr>,
        \<lparr> bound = [(''0xSigner'', 2), (''0xSigner'', 1)], fresh = [] \<rparr>,
        [CreateIdentity, GetSchema schema1, GetDefaultIdType, GetIdByAddress ''0xSigner'',
         GenerateAuthProof ''did:iden3:B'', AuthMethodExists ''authV2'',
         SubmitResponse \<lparr> authMethod = ''authV2'', proof_encoded = ''did:iden3:B'' \<rparr>,
         Wait ''0xa1'', GetIdByAddress ''0xSigner''])
   \<and> userId \<lparr> userId = 2, userDid = ''did:iden3:B'', signerAddress = ''0xSigner'' \<rparr> \<noteq>
       userId \<lparr> userId = 1, userDid = ''did:iden3:A'', signerAddress = ''0xSigner'' \<rparr>"
proof -
  let ?first = "\<lparr> userId = 1, userDid = ''did:iden3:A'', signerAddress = ''0xSigner'' \<rparr>"
  let ?second = "\<lparr> userId = 2, userDid = ''did:iden3:B'', signerAddress = ''0xSigner'' \<rparr>"
  let ?between = "\<lparr> bound = [(''0xSigner'', 1)], fresh = [''did:iden3:B''] \<rparr>"
  have first_run: "checkAuthenticationAuthV2 demo schema1 ''0xSigner''
     (\<lparr> bound = [], fresh = [''did:iden3:A'', ''did:iden3:B''] \<rparr>, []) =
     (Inr ?first, ?between,
      [CreateIdentity, GetSchema schema1, GetDefaultIdType, GetIdByAddress ''0xSigner'',
       GenerateAuthProof ''did:iden3:A'', AuthMethodExists ''authV2'',
       SubmitResponse \<lparr> authMethod = ''authV2'', proof_encoded = ''did:iden3:A'' \<rparr>,
       Wait ''0xa1'', GetIdByAddress ''0xSigner''])"
    by code_simp
  have second_run: "checkAuthenticationAuthV2 demo schema1 ''0xSigner'' (?between, []) =
       (Inr ?second, \<lparr> bound = [(''0xSigner'', 2), (''0xSigner'', 1)], fresh = [] \<rparr>,
        [CreateIdentity, GetSchema schema1, GetDefaultIdType, GetIdByAddress ''0xSigner'',
         GenerateAuthProof ''did:iden3:B'', AuthMethodExists ''authV2'',
         SubmitResponse \<lparr> authMethod = ''authV2'', proof_encoded = ''did:iden3:B'' \<rparr>,
         Wait ''0xa1'', GetIdByAddress ''0xSigner''])"
    by code_simp
  have second_run': "checkAuthenticationAuthV2 demo schema1 ''0xSigner''
       (?between, [CreateIdentity, GetSchema schema1, GetDefaultIdType, GetIdByAddress ''0xSigner'',
         GenerateAuthProof ''did:iden3:A'', AuthMethodExists ''authV2'',
         SubmitResponse \<lparr> authMethod = ''authV2'', proof_encoded = ''did:iden3:A'' \<rparr>,
         Wait ''0xa1'', GetIdByAddress ''0xSigner'']) =
       (Inr ?second, \<lparr> bound = [(''0xSigner'', 2), (''0xSigner'', 1)], fresh = [] \<rparr>,
        [CreateIdentity, GetSchema schema1, GetDefaultIdType, GetIdByAddress ''0xSigner'',
         GenerateAuthProof ''did:iden3:A'', AuthMethodExists ''authV2'',
         SubmitResponse \<lparr> authMethod = ''authV2'', proof_encoded = ''did:iden3:A'' \<rparr>,
         Wait ''0xa1'', GetIdByAddress ''0xSigner'',
         CreateIdentity, GetSchema schema1, GetDefaultIdType, GetIdByAddress ''0xSigner'',
         GenerateAuthProof ''did:iden3:B'', AuthMethodExists ''authV2'',
         SubmitResponse \<lparr> authMethod = ''authV2'', proof_encoded = ''did:iden3:B'' \<rparr>,
         Wait ''0xa1'', GetIdByAddress ''0xSigner''])"
    by code_simp
  have identity: "createIdentity demo ?between =
                    (Inr ''did:iden3:B'', \<lparr> bound = [(''0xSigner'', 1)], fresh = [] \<rparr>)"
    by code_simp
  have candidate: "idFromDID demo ''did:iden3:B'' = Inr 2"
    by code_simp
  have established: "getIdByAddress demo \<lparr> bound = [(''0xSigner'', 1)], fresh = [] \<rparr> ''0xSigner'' = Inr (userId ?first)"
    by code_simp
  have nonzero: "userId ?first \<noteq> 0" by simp
  have fresh_identity: "(2::int) \<noteq> userId ?first" by simp
  have "userId ?second \<noteq> userId ?first"
    using second_run_authenticates_again[OF first_run second_run' identity candidate established nonzero fresh_identity]
    by simp
  with first_run second_run established show ?thesis
    by simp
qed


subsection \<open>The identifier returned when another one is bound\<close>

text \<open>
  C1 on the source.  The signer is bound on-chain to an identifier \<open>B\<close>, not zero, and
  the identity created in the run has another identifier \<open>A\<close>.  Then a run that returns
  has submitted an authentication response, and the identifier it returns is \<open>A\<close>, not
  \<open>B\<close>: the branch that authenticates never assigns \<open>userId\<close>, and the branch that
  would put \<open>B\<close> in its place is not taken (C8).  The witness is the run with \<open>B = 2\<close>
  and \<open>A = 1\<close>.
\<close>

theorem bound_id_is_not_returned:
  assumes run: "checkAuthenticationAuthV2 g sid signer (w, tr) = (Inr r, w', tr')"
    and identity: "createIdentity g w = (Inr d, w1)"
    and candidate: "idFromDID g d = Inr A"
    and established: "getIdByAddress g w1 signer = Inr B" "B \<noteq> 0" "B \<noteq> A"
  shows "userId r = A \<and> userId r \<noteq> B
       \<and> (\<exists>response authTx. tr' = tr @ [CreateIdentity, GetSchema sid, GetDefaultIdType, GetIdByAddress signer,
              GenerateAuthProof d, AuthMethodExists ''authV2'', SubmitResponse response, Wait authTx,
              GetIdByAddress signer])"
proof -
  from returns_candidate[OF run] identity candidate have local: "userId r = A"
    by auto
  have "\<exists>response authTx. tr' = tr @ [CreateIdentity, GetSchema sid, GetDefaultIdType, GetIdByAddress signer,
              GenerateAuthProof d, AuthMethodExists ''authV2'', SubmitResponse response, Wait authTx,
              GetIdByAddress signer]"
    using run identity candidate established
    unfolding checkAuthenticationAuthV2_def io_defs
    by (auto simp: Let_def split: if_splits sum.splits prod.splits dest!: submitAuthentication_returns)
  with local established(3) show ?thesis
    by simp
qed

theorem bound_id_is_not_returned_witness:
  "getIdByAddress demo \<lparr> bound = [(''0xSigner'', 2)], fresh = [] \<rparr> ''0xSigner'' = Inr 2
   \<and> checkAuthenticationAuthV2 demo schema1 ''0xSigner''
        (\<lparr> bound = [(''0xSigner'', 2)], fresh = [''did:iden3:A''] \<rparr>, []) =
       (Inr \<lparr> userId = 1, userDid = ''did:iden3:A'', signerAddress = ''0xSigner'' \<rparr>,
        \<lparr> bound = [(''0xSigner'', 1), (''0xSigner'', 2)], fresh = [] \<rparr>,
        [CreateIdentity, GetSchema schema1, GetDefaultIdType, GetIdByAddress ''0xSigner'',
         GenerateAuthProof ''did:iden3:A'', AuthMethodExists ''authV2'',
         SubmitResponse \<lparr> authMethod = ''authV2'', proof_encoded = ''did:iden3:A'' \<rparr>,
         Wait ''0xa1'', GetIdByAddress ''0xSigner''])
   \<and> userId \<lparr> userId = 1, userDid = ''did:iden3:A'', signerAddress = ''0xSigner'' \<rparr> \<noteq> 2"
proof -
  have run: "checkAuthenticationAuthV2 demo schema1 ''0xSigner''
        (\<lparr> bound = [(''0xSigner'', 2)], fresh = [''did:iden3:A''] \<rparr>, []) =
       (Inr \<lparr> userId = 1, userDid = ''did:iden3:A'', signerAddress = ''0xSigner'' \<rparr>,
        \<lparr> bound = [(''0xSigner'', 1), (''0xSigner'', 2)], fresh = [] \<rparr>,
        [CreateIdentity, GetSchema schema1, GetDefaultIdType, GetIdByAddress ''0xSigner'',
         GenerateAuthProof ''did:iden3:A'', AuthMethodExists ''authV2'',
         SubmitResponse \<lparr> authMethod = ''authV2'', proof_encoded = ''did:iden3:A'' \<rparr>,
         Wait ''0xa1'', GetIdByAddress ''0xSigner''])"
    by code_simp
  have identity: "createIdentity demo \<lparr> bound = [(''0xSigner'', 2)], fresh = [''did:iden3:A''] \<rparr> =
                    (Inr ''did:iden3:A'', \<lparr> bound = [(''0xSigner'', 2)], fresh = [] \<rparr>)"
    by code_simp
  have candidate: "idFromDID demo ''did:iden3:A'' = Inr 1"
    by code_simp
  have established: "getIdByAddress demo \<lparr> bound = [(''0xSigner'', 2)], fresh = [] \<rparr> ''0xSigner'' = Inr 2"
    by code_simp
  have "userId \<lparr> userId = 1, userDid = ''did:iden3:A'', signerAddress = ''0xSigner'' \<rparr> \<noteq> 2"
    using bound_id_is_not_returned[OF run identity candidate established] by simp
  with run established show ?thesis
    by simp
qed

text \<open>
  The identifier read again after the inclusion is only compared with zero.  With a
  verifier that accepts the response and keeps the old binding, the run returns 1 while
  the identifier bound when it returns is 2.
\<close>

theorem stale_binding_is_not_returned:
  "checkAuthenticationAuthV2 demo_ineffective schema1 ''0xSigner''
        (\<lparr> bound = [(''0xSigner'', 2)], fresh = [''did:iden3:A''] \<rparr>, []) =
       (Inr \<lparr> userId = 1, userDid = ''did:iden3:A'', signerAddress = ''0xSigner'' \<rparr>,
        \<lparr> bound = [(''0xSigner'', 2)], fresh = [] \<rparr>,
        [CreateIdentity, GetSchema schema1, GetDefaultIdType, GetIdByAddress ''0xSigner'',
         GenerateAuthProof ''did:iden3:A'', AuthMethodExists ''authV2'',
         SubmitResponse \<lparr> authMethod = ''authV2'', proof_encoded = ''did:iden3:A'' \<rparr>,
         Wait ''0xa1'', GetIdByAddress ''0xSigner''])
   \<and> getIdByAddress demo_ineffective \<lparr> bound = [(''0xSigner'', 2)], fresh = [] \<rparr> ''0xSigner'' = Inr 2"
  by code_simp

end
